theory Spec2Isabelle
  imports Complex_Main "HOL-Library.Sublist"
begin

section \<open>The quote fetcher of scripts/yfinance\_api.py\<close>

text \<open>
  The script is a command line wrapper around one provider call. It is embedded as
  state-passing functions over a \<open>world\<close>: what was written to standard output, what
  was written to the error stream, the delays slept, and the symbols sent to the provider.
  The provider, the availability flag set at import time and the clock are the environment.

  Conventions of the embedding:
  \<^item> Python values are the type \<open>pyval\<close>: None, booleans, numbers, strings, lists and
    dictionaries with string keys (insertion ordered, as association lists; a lookup takes
    the first entry of a key, and the dictionaries the script builds have each key once),
    and \<open>VObject\<close>, an instance of a class with no operators and no methods of its own,
    as \<open>object()\<close> is: it is truthy, every operation on it raises, and \<open>json\<close> cannot
    encode it.
  \<^item> Numbers are exact rationals: Python's \<open>int\<close> and the finite \<open>float\<close>s are not told
    apart. Rounding, the overflow of a \<open>float\<close> operation to an infinity, NaN and the
    infinities themselves are outside the model: a statement here about arithmetic is
    about runs in which no operation overflows.
  \<^item> Strings are ASCII text. \<open>upper\<close> maps \<open>a..z\<close> to \<open>A..Z\<close>; the white space
    stripped by \<open>strip\<close> is the ASCII white space of Python's \<open>str.isspace\<close>.
  \<^item> An exception is a value \<open>Exn kind message\<close>; a computation that may raise returns
    \<open>exn + 'a\<close>, with \<open>Inl\<close> the exception.
  \<^item> Each line printed to the error stream is an event of type \<open>log\<close> carrying the
    values interpolated into the message; the fixed wording and the emoji are left out.
\<close>

subsection \<open>Values\<close>

datatype pyval =
    VNone
  | VBool bool
  | VNum rat
  | VStr string
  | VList "pyval list"
  | VDict "(string \<times> pyval) list"
  | VObject

datatype exn_kind =
  ProviderError | TypeError | ValueError | ZeroDivisionError | KeyError | AttributeError

datatype exn = Exn exn_kind string

fun exn_str :: "exn \<Rightarrow> string" where
  "exn_str (Exn k m) = m"

text \<open>Truth value testing, as \<open>if v:\<close> and \<open>not v\<close> do it.\<close>

fun truthy :: "pyval \<Rightarrow> bool" where
  "truthy VNone = False"
| "truthy (VBool b) = b"
| "truthy (VNum r) = (r \<noteq> 0)"
| "truthy (VStr s) = (s \<noteq> [])"
| "truthy (VList xs) = (xs \<noteq> [])"
| "truthy (VDict d) = (d \<noteq> [])"
| "truthy VObject = True"

text \<open>The numeric reading of a value: booleans are the integers 0 and 1.\<close>

fun num_of :: "pyval \<Rightarrow> rat option" where
  "num_of (VNum r) = Some r"
| "num_of (VBool b) = Some (if b then 1 else 0)"
| "num_of v = None"

text \<open>\<open>v == 0\<close>\<close>

definition py_eq0 :: "pyval \<Rightarrow> bool" where
  "py_eq0 v = (case num_of v of Some r \<Rightarrow> r = 0 | None \<Rightarrow> False)"

text \<open>\<open>a - b\<close>: defined on numbers, a TypeError on everything else of the model.\<close>

definition py_sub :: "pyval \<Rightarrow> pyval \<Rightarrow> exn + pyval" where
  "py_sub a b =
     (case (num_of a, num_of b) of
        (Some x, Some y) \<Rightarrow> Inr (VNum (x - y))
      | _ \<Rightarrow> Inl (Exn TypeError ''unsupported operand type(s) for -''))"

text \<open>\<open>v > 0\<close>\<close>

definition py_gt0 :: "pyval \<Rightarrow> exn + bool" where
  "py_gt0 v =
     (case num_of v of
        Some x \<Rightarrow> Inr (x > 0)
      | None \<Rightarrow> Inl (Exn TypeError ''> not supported between instances''))"

text \<open>
  \<open>a / b\<close>: true division, which raises on a zero divisor. The quotient is exact: a
  \<open>float\<close> quotient that overflows to an infinity, and the OverflowError of an \<open>int\<close>
  quotient beyond the range of \<open>float\<close>, are outside the model.
\<close>

definition py_truediv :: "pyval \<Rightarrow> pyval \<Rightarrow> exn + pyval" where
  "py_truediv a b =
     (case (num_of a, num_of b) of
        (Some x, Some y) \<Rightarrow>
          (if y = 0 then Inl (Exn ZeroDivisionError ''division by zero'')
           else Inr (VNum (x / y)))
      | _ \<Rightarrow> Inl (Exn TypeError ''unsupported operand type(s) for /''))"

text \<open>\<open>v * 100\<close> with the integer literal: a product on numbers, a repetition on sequences.\<close>

fun py_times100 :: "pyval \<Rightarrow> exn + pyval" where
  "py_times100 (VNum r) = Inr (VNum (r * 100))"
| "py_times100 (VBool b) = Inr (VNum ((if b then 1 else 0) * 100))"
| "py_times100 (VStr s) = Inr (VStr (concat (replicate 100 s)))"
| "py_times100 (VList xs) = Inr (VList (concat (replicate 100 xs)))"
| "py_times100 v = Inl (Exn TypeError ''unsupported operand type(s) for *'')"

text \<open>\<open>d.get(k, default)\<close> on a dictionary.\<close>

definition dget :: "(string \<times> pyval) list \<Rightarrow> string \<Rightarrow> pyval \<Rightarrow> pyval" where
  "dget d k dflt = (case map_of d k of Some v \<Rightarrow> v | None \<Rightarrow> dflt)"

text \<open>A string between apostrophes, as \<open>repr\<close> prints it.\<close>

definition quoted :: "string \<Rightarrow> string" where
  "quoted s = [CHR 0x27] @ s @ [CHR 0x27]"

text \<open>\<open>v.get(k, default)\<close> on any value: only dictionaries have the method.\<close>

fun py_get :: "pyval \<Rightarrow> string \<Rightarrow> pyval \<Rightarrow> exn + pyval" where
  "py_get (VDict d) k dflt = Inr (dget d k dflt)"
| "py_get v k dflt = Inl (Exn AttributeError ''object has no attribute get'')"

text \<open>\<open>v[k]\<close> with a string key.\<close>

fun py_subscript :: "pyval \<Rightarrow> string \<Rightarrow> exn + pyval" where
  "py_subscript (VDict d) k =
     (case map_of d k of Some v \<Rightarrow> Inr v | None \<Rightarrow> Inl (Exn KeyError (quoted k)))"
| "py_subscript v k = Inl (Exn TypeError ''indices must be integers'')"

text \<open>\<open>a or b\<close>\<close>

definition py_or :: "pyval \<Rightarrow> pyval \<Rightarrow> pyval" where
  "py_or a b = (if truthy a then a else b)"

subsection \<open>Strings\<close>

definition upper_char :: "char \<Rightarrow> char" where
  "upper_char c =
     (let n = (of_char c :: nat) in if 97 \<le> n \<and> n \<le> 122 then char_of (n - 32) else c)"

definition upper :: "string \<Rightarrow> string" where
  "upper s = map upper_char s"

definition is_space :: "char \<Rightarrow> bool" where
  "is_space c =
     (of_char c \<in> {9::nat, 10, 11, 12, 13, 28, 29, 30, 31, 32})"

definition strip :: "string \<Rightarrow> string" where
  "strip s = rev (dropWhile is_space (rev (dropWhile is_space s)))"

text \<open>\<open>needle in hay\<close> on strings.\<close>

fun str_in :: "string \<Rightarrow> string \<Rightarrow> bool" where
  "str_in needle [] = (needle = [])"
| "str_in needle (c # cs) = (prefix needle (c # cs) \<or> str_in needle cs)"

fun digit_char :: "nat \<Rightarrow> char" where
  "digit_char n = char_of (48 + n)"

fun str_nat :: "nat \<Rightarrow> string" where
  "str_nat n = (if n < 10 then [digit_char n] else str_nat (n div 10) @ [digit_char (n mod 10)])"

subsection \<open>The world and the environment\<close>

datatype log =
    LImported
  | LNotAvailable string
  | LUsingFallback
  | LFetching string nat
  | LWaiting rat
  | LNoValidData string
  | LSuccess string pyval
  | LError string string
  | LRateLimit string
  | LMaxRetries string
  | LTraceback
  | LSearching string
  | LExactMatch pyval
  | LSuffixMatch string
  | LSearchError string

datatype stdout_item = Json pyval | Text string

record world =
  stdout :: "stdout_item list"
  stderr :: "log list"
  slept :: "rat list"
  calls :: "string list"

definition world0 :: world where
  "world0 = \<lparr>stdout = [], stderr = [], slept = [], calls = []\<rparr>"

text \<open>
  One answer of the provider to \<open>yf.Ticker(symbol).info\<close>: the text the library wrote
  to standard output meanwhile, and either the exception raised or the value of \<open>info\<close>.
\<close>

datatype reply = Reply "string list" "exn + pyval"

text \<open>
  The environment: \<open>available\<close> is YFINANCE\_AVAILABLE and \<open>import_error\<close> the message of
  the ImportError; \<open>provider\<close> answers a symbol given the symbols asked before; \<open>clock\<close>
  is \<open>datetime.now().isoformat()\<close> after that many provider calls.
\<close>

record env =
  available :: bool
  import_error :: string
  provider :: "string list \<Rightarrow> string \<Rightarrow> reply"
  clock :: "nat \<Rightarrow> string"

definition eprint :: "log \<Rightarrow> world \<Rightarrow> world" where
  "eprint l w = w\<lparr>stderr := stderr w @ [l]\<rparr>"

text \<open>
  \<open>json.dumps(v)\<close>: it raises a TypeError when \<open>v\<close> holds, at any depth, a value that
  \<open>json\<close> cannot encode. The text it returns otherwise is kept as the value it renders.
\<close>

fun serialisable :: "pyval \<Rightarrow> bool"
  and serialisable_list :: "pyval list \<Rightarrow> bool"
  and serialisable_items :: "(string \<times> pyval) list \<Rightarrow> bool" where
  "serialisable VObject = False"
| "serialisable (VList xs) = serialisable_list xs"
| "serialisable (VDict d) = serialisable_items d"
| "serialisable v = True"
| "serialisable_list [] = True"
| "serialisable_list (x # xs) = (serialisable x \<and> serialisable_list xs)"
| "serialisable_items [] = True"
| "serialisable_items (kv # d) = (serialisable (snd kv) \<and> serialisable_items d)"

definition json_dumps :: "pyval \<Rightarrow> exn + pyval" where
  "json_dumps v =
     (if serialisable v then Inr v
      else Inl (Exn TypeError ''Object of type object is not JSON serializable''))"

text \<open>\<open>print(text)\<close> of a text that \<open>json.dumps\<close> returned: one item on standard output.\<close>

definition print_stdout :: "pyval \<Rightarrow> world \<Rightarrow> world" where
  "print_stdout text w = w\<lparr>stdout := stdout w @ [Json text]\<rparr>"

text \<open>
  \<open>print(json.dumps(v))\<close>, as \<open>main\<close> writes every answer: nothing is printed when
  \<open>json.dumps\<close> raises.
\<close>

definition print_dumps :: "pyval \<Rightarrow> world \<Rightarrow> (exn + unit) \<times> world" where
  "print_dumps v w =
     (case json_dumps v of
        Inl ex \<Rightarrow> (Inl ex, w)
      | Inr text \<Rightarrow> (Inr (), print_stdout text w))"

text \<open>
  The end of the process after the last statement of \<open>main\<close>: an exception that nothing
  caught prints a traceback on the error stream and gives status 1; otherwise the status
  is the one asked for.
\<close>

definition exit_with :: "int \<Rightarrow> (exn + unit) \<times> world \<Rightarrow> int \<times> world" where
  "exit_with status r =
     (case r of
        (Inl ex, w) \<Rightarrow> (1, eprint LTraceback w)
      | (Inr u, w) \<Rightarrow> (status, w))"

text \<open>\<open>time.sleep(d)\<close> raises a ValueError on a negative delay.\<close>

definition sleep :: "rat \<Rightarrow> world \<Rightarrow> (exn + unit) \<times> world" where
  "sleep d w =
     (if d < 0 then (Inl (Exn ValueError ''sleep length must be non-negative''), w)
      else (Inr (), w\<lparr>slept := slept w @ [d]\<rparr>))"

text \<open>The module level code run at import: lines 16 to 23.\<close>

definition module_init :: "env \<Rightarrow> world \<Rightarrow> world" where
  "module_init e w =
     (if available e then eprint LImported w
      else eprint LUsingFallback (eprint (LNotAvailable (import_error e)) w))"

subsection \<open>get\_stock\_data\<close>

definition price_key :: string where
  "price_key = ''regularMarketPrice''"

definition prev_close_key :: string where
  "prev_close_key = ''regularMarketPreviousClose''"

text \<open>Lines 58 and 59: the current price, and the previous close with its default.\<close>

definition current_price_of :: "(string \<times> pyval) list \<Rightarrow> pyval" where
  "current_price_of info = dget info price_key (VNum 0)"

definition previous_close_of :: "(string \<times> pyval) list \<Rightarrow> pyval" where
  "previous_close_of info = dget info prev_close_key (current_price_of info)"

text \<open>Line 61: \<open>(change / previous_close * 100) if previous_close > 0 else 0\<close>.\<close>

definition change_percent_of :: "pyval \<Rightarrow> pyval \<Rightarrow> exn + pyval" where
  "change_percent_of change previous_close =
     (case py_gt0 previous_close of
        Inl e \<Rightarrow> Inl e
      | Inr positive \<Rightarrow>
          (if positive then
             (case py_truediv change previous_close of
                Inl e \<Rightarrow> Inl e
              | Inr q \<Rightarrow> py_times100 q)
           else Inr (VNum 0)))"

text \<open>Line 82: \<open>(info.get('dividendYield', 0) * 100) if info.get('dividendYield') else 0\<close>.\<close>

definition dividend_yield_of :: "(string \<times> pyval) list \<Rightarrow> exn + pyval" where
  "dividend_yield_of info =
     (if truthy (dget info ''dividendYield'' VNone)
      then py_times100 (dget info ''dividendYield'' (VNum 0))
      else Inr (VNum 0))"

text \<open>Lines 58 to 86: the stock data object built from a non-empty \<open>info\<close>.\<close>

definition build_stock_data :: "string \<Rightarrow> (string \<times> pyval) list \<Rightarrow> string \<Rightarrow> exn + pyval" where
  "build_stock_data symbol info now =
     (let current_price = current_price_of info;
          previous_close = previous_close_of info
      in case py_sub current_price previous_close of
           Inl e \<Rightarrow> Inl e
         | Inr change \<Rightarrow>
             (case change_percent_of change previous_close of
                Inl e \<Rightarrow> Inl e
              | Inr change_percent \<Rightarrow>
                  (case dividend_yield_of info of
                     Inl e \<Rightarrow> Inl e
                   | Inr dividend_yield \<Rightarrow>
                       Inr (VDict
                         [(''symbol'', VStr (upper symbol)),
                          (''name'', py_or (dget info ''longName'' VNone)
                                       (py_or (dget info ''shortName'' VNone) (VStr symbol))),
                          (''price'', current_price),
                          (''change'', change),
                          (''changePercent'', change_percent),
                          (''volume'', dget info ''volume'' (VNum 0)),
                          (''marketCap'', dget info ''marketCap'' (VNum 0)),
                          (''pe'', dget info ''trailingPE'' (VNum 0)),
                          (''dividend'', dget info ''dividendRate'' (VNum 0)),
                          (''sector'', dget info ''sector'' (VStr ''Unknown'')),
                          (''industry'', dget info ''industry'' (VStr ''Unknown'')),
                          (''exchange'', dget info ''exchange'' (VStr ''NASDAQ'')),
                          (''dayHigh'', dget info ''dayHigh'' current_price),
                          (''dayLow'', dget info ''dayLow'' current_price),
                          (''fiftyTwoWeekHigh'', dget info ''fiftyTwoWeekHigh'' current_price),
                          (''fiftyTwoWeekLow'', dget info ''fiftyTwoWeekLow'' current_price),
                          (''avgVolume'', dget info ''averageVolume'' (VNum 0)),
                          (''dividendYield'', dividend_yield),
                          (''beta'', dget info ''beta'' (VNum 0)),
                          (''eps'', dget info ''trailingEps'' (VNum 0)),
                          (''lastUpdated'', VStr now)]))))"

text \<open>The keys of a stock data object, in the order of the dictionary display.\<close>

definition quote_keys :: "string list" where
  "quote_keys =
     [''symbol'', ''name'', ''price'', ''change'', ''changePercent'', ''volume'',
      ''marketCap'', ''pe'', ''dividend'', ''sector'', ''industry'', ''exchange'',
      ''dayHigh'', ''dayLow'', ''fiftyTwoWeekHigh'', ''fiftyTwoWeekLow'', ''avgVolume'',
      ''dividendYield'', ''beta'', ''eps'', ''lastUpdated'']"

fun is_quote :: "pyval \<Rightarrow> bool" where
  "is_quote (VDict d) = (map fst d = quote_keys)"
| "is_quote v = False"

text \<open>The dictionary returned when the library could not be imported: lines 28 to 32.\<close>

definition fallback_result :: pyval where
  "fallback_result =
     VDict [(''success'', VBool False),
            (''error'', VStr ''yfinance module not available''),
            (''fallback'', VBool True)]"

text \<open>Line 96: the test for a rate limiting error.\<close>

definition is_rate_limit :: "string \<Rightarrow> bool" where
  "is_rate_limit error_msg = (str_in ''429'' error_msg \<or> str_in ''Too Many Requests'' error_msg)"

text \<open>
  Lines 36 to 89, the body of the \<open>try\<close> of one attempt. \<open>Inr v\<close> is \<open>return v\<close>,
  \<open>Inl e\<close> is the exception that reaches the handler. Inside the \<open>with\<close> block
  standard output is redirected: what the library prints there is the content of the
  local \<open>null_stream\<close>, which nothing reads, and the \<open>stdout\<close> of the world is not
  written. The script's own lines go to the error stream by \<open>file=sys.stderr\<close>.
\<close>

definition fetch_attempt ::
  "env \<Rightarrow> string \<Rightarrow> rat \<Rightarrow> nat \<Rightarrow> world \<Rightarrow> (exn + pyval) \<times> world" where
  "fetch_attempt e symbol retry_delay attempt w =
     (let w1 = eprint (LFetching symbol (attempt + 1)) w in
      case (if attempt > 0 then sleep retry_delay (eprint (LWaiting retry_delay) w1)
            else (Inr (), w1)) of
        (Inl ex, w2) \<Rightarrow> (Inl ex, w2)
      | (Inr u, w2) \<Rightarrow>
          (case provider e (calls w2) symbol of
             Reply null_stream outcome \<Rightarrow>
               (let w3 = w2\<lparr>calls := calls w2 @ [symbol]\<rparr> in
                case outcome of
                  Inl ex \<Rightarrow> (Inl ex, w3)
                | Inr info \<Rightarrow>
                    (if \<not> truthy info then (Inr VNone, eprint (LNoValidData symbol) w3)
                     else case info of
                       VDict d \<Rightarrow>
                         (if \<not> truthy (dget d price_key VNone) \<or> py_eq0 (dget d price_key VNone)
                          then (Inr VNone, eprint (LNoValidData symbol) w3)
                          else case build_stock_data symbol d (clock e (length (calls w3))) of
                                 Inl ex \<Rightarrow> (Inl ex, w3)
                               | Inr stock_data \<Rightarrow>
                                   (Inr stock_data,
                                    eprint (LSuccess symbol (current_price_of d)) w3))
                     | _ \<Rightarrow> (Inl (Exn AttributeError ''object has no attribute get''), w3)))))"

text \<open>
  Lines 34 to 109: the loop \<open>for attempt in range(max_retries + 1)\<close>, over the attempts
  still to run, with the handler of lines 91 to 107. A rate limiting error doubles the
  delay and continues while \<open>attempt < max_retries\<close>; any other error returns None.
\<close>

fun attempts ::
  "env \<Rightarrow> string \<Rightarrow> int \<Rightarrow> rat \<Rightarrow> nat list \<Rightarrow> world \<Rightarrow> pyval \<times> world" where
  "attempts e symbol max_retries retry_delay [] w = (VNone, w)"
| "attempts e symbol max_retries retry_delay (attempt # rest) w =
     (case fetch_attempt e symbol retry_delay attempt w of
        (Inr v, w1) \<Rightarrow> (v, w1)
      | (Inl ex, w1) \<Rightarrow>
          (let error_msg = exn_str ex;
               w2 = eprint (LError symbol error_msg) w1
           in if is_rate_limit error_msg then
                (let w3 = eprint (LRateLimit symbol) w2 in
                 if int attempt < max_retries
                 then attempts e symbol max_retries (retry_delay * 2) rest w3
                 else (VNone, eprint (LMaxRetries symbol) w3))
              else (VNone, eprint LTraceback w2)))"

text \<open>\<open>range(n)\<close> for an integer \<open>n\<close>: empty when \<open>n\<close> is not positive.\<close>

definition py_range :: "int \<Rightarrow> nat list" where
  "py_range n = [0 ..< nat n]"

definition get_stock_data ::
  "env \<Rightarrow> string \<Rightarrow> int \<Rightarrow> rat \<Rightarrow> world \<Rightarrow> pyval \<times> world" where
  "get_stock_data e symbol max_retries retry_delay w =
     (if \<not> available e then (fallback_result, w)
      else attempts e symbol max_retries retry_delay (py_range (max_retries + 1)) w)"

subsection \<open>search\_stocks\<close>

definition common_suffixes :: "string list" where
  "common_suffixes = [''.TO'', ''.V'', ''.AX'']"

definition popular_symbols :: "string list" where
  "popular_symbols =
     [''AAPL'', ''MSFT'', ''GOOGL'', ''TSLA'', ''NVDA'', ''AMZN'', ''META'', ''NFLX'']"

text \<open>Line 145: \<open>[s for s in popular_symbols if search_term in s or s in search_term]\<close>.\<close>

definition matching_symbols :: "string \<Rightarrow> string list" where
  "matching_symbols search_term =
     filter (\<lambda>s. str_in search_term s \<or> str_in s search_term) popular_symbols"

text \<open>
  Lines 133 to 139: the loop over the suffixes still to try. The value is \<open>results\<close>
  after the loop: empty, or the first stock data found, at which the loop breaks.
\<close>

fun suffix_loop :: "env \<Rightarrow> string \<Rightarrow> string list \<Rightarrow> world \<Rightarrow> pyval list \<times> world" where
  "suffix_loop e search_term [] w = ([], w)"
| "suffix_loop e search_term (sfx # rest) w =
     (let symbol_with_suffix = search_term @ sfx in
      case get_stock_data e symbol_with_suffix 2 1 w of
        (stock_data, w1) \<Rightarrow>
          (if truthy stock_data
           then ([stock_data], eprint (LSuffixMatch symbol_with_suffix) w1)
           else suffix_loop e search_term rest w1))"

text \<open>Lines 148 to 153: the loop over the popular symbols still to fetch.\<close>

fun popular_loop :: "env \<Rightarrow> string list \<Rightarrow> pyval list \<Rightarrow> world \<Rightarrow> pyval list \<times> world" where
  "popular_loop e [] results w = (results, w)"
| "popular_loop e (symbol # rest) results w =
     (case get_stock_data e symbol 2 1 w of
        (stock_data, w1) \<Rightarrow>
          (if truthy stock_data then
             (let results1 = results @ [stock_data] in
              if length results1 \<ge> 2 then (results1, w1)
              else popular_loop e rest results1 w1)
           else popular_loop e rest results w1))"

definition search_term_of :: "string \<Rightarrow> string" where
  "search_term_of query = strip (upper query)"

text \<open>Lines 114 to 155: the body of the \<open>try\<close> of \<open>search_stocks\<close>.\<close>

definition search_body :: "env \<Rightarrow> string \<Rightarrow> world \<Rightarrow> (exn + pyval list) \<times> world" where
  "search_body e query w =
     (let search_term = search_term_of query in
      if length search_term < 1 then (Inr [], w)
      else
        (let w1 = eprint (LSearching search_term) w in
         case get_stock_data e search_term 2 1 w1 of
           (exact_match, w2) \<Rightarrow>
             (if truthy exact_match then
                (case py_subscript exact_match ''symbol'' of
                   Inl ex \<Rightarrow> (Inl ex, w2)
                 | Inr matched \<Rightarrow> (Inr [exact_match], eprint (LExactMatch matched) w2))
              else
                (case suffix_loop e search_term common_suffixes w2 of
                   (results, w3) \<Rightarrow>
                     (if results = [] \<and> length search_term \<le> 4 then
                        (case popular_loop e (take 2 (matching_symbols search_term)) results w3 of
                           (results1, w4) \<Rightarrow> (Inr results1, w4))
                      else (Inr results, w3))))))"

text \<open>
  Lines 113 to 160: \<open>search_stocks\<close> with its handler, which logs the exception and
  returns the empty list. \<open>Inl\<close> would be an exception leaving the function.
\<close>

definition search_stocks :: "env \<Rightarrow> string \<Rightarrow> world \<Rightarrow> (exn + pyval list) \<times> world" where
  "search_stocks e query w =
     (case search_body e query w of
        (Inr results, w1) \<Rightarrow> (Inr results, w1)
      | (Inl ex, w1) \<Rightarrow> (Inr [], eprint LTraceback (eprint (LSearchError (exn_str ex)) w1)))"

subsection \<open>main\<close>

definition no_query_error :: pyval where
  "no_query_error = VDict [(''error'', VStr ''No query provided'')]"

definition invalid_command_error :: pyval where
  "invalid_command_error =
     VDict [(''error'',
        VStr (''Invalid command. Use '' @ quoted ''search <query>'' @ '' or '' @ quoted ''test''))]"

definition search_response :: "pyval list \<Rightarrow> pyval" where
  "search_response results =
     VDict [(''success'', VBool True),
            (''results'', VList results),
            (''message'',
               VStr (''Found '' @ str_nat (length results) @ '' stocks using real-time data'')),
            (''source'', VStr ''yfinance'')]"

definition test_unavailable :: pyval where
  "test_unavailable =
     VDict [(''success'', VBool False),
            (''message'', VStr ''yfinance module not available''),
            (''error'', VStr (''ModuleNotFoundError: No module named '' @ quoted ''yfinance''))]"

definition test_working :: "pyval \<Rightarrow> pyval" where
  "test_working test_data =
     VDict [(''success'', VBool True),
            (''message'', VStr ''yfinance integration is working''),
            (''data'', test_data)]"

definition test_failed :: "pyval \<Rightarrow> pyval" where
  "test_failed err =
     VDict [(''success'', VBool False),
            (''message'', VStr ''yfinance integration test failed''),
            (''error'', err)]"

text \<open>
  Lines 189 to 201, after the fetch: \<open>test_data and test_data.get("success", False)\<close>
  decides between the two diagnostic objects.
\<close>

definition test_report :: "pyval \<Rightarrow> exn + pyval" where
  "test_report test_data =
     (case (if truthy test_data then py_get test_data ''success'' (VBool False)
            else Inr test_data) of
        Inl ex \<Rightarrow> Inl ex
      | Inr ok \<Rightarrow>
          (if truthy ok then Inr (test_working test_data)
           else if truthy test_data then
             (case py_get test_data ''error'' (VStr ''Unknown error'') of
                Inl ex \<Rightarrow> Inl ex
              | Inr err \<Rightarrow> Inr (test_failed err))
           else Inr (test_failed (VStr ''No data returned''))))"

text \<open>
  Lines 162 to 204. The value is the exit status and the world: \<open>sys.exit(1)\<close> is status
  1; an exception that nothing catches, also one raised by \<open>json.dumps\<close>, which is
  outside every \<open>try\<close>, prints a traceback and ends with status 1; falling off the end
  is status 0.
\<close>

definition main :: "env \<Rightarrow> string list \<Rightarrow> world \<Rightarrow> int \<times> world" where
  "main e argv w =
     (if length argv < 2 then exit_with 1 (print_dumps no_query_error w)
      else
        (let command = argv ! 1 in
         if command = ''search'' \<and> length argv \<ge> 3 then
           (let query = argv ! 2 in
            case search_stocks e query w of
              (Inl ex, w1) \<Rightarrow> (1, eprint LTraceback w1)
            | (Inr results, w1) \<Rightarrow> exit_with 0 (print_dumps (search_response results) w1))
         else if command = ''test'' then
           (if \<not> available e then exit_with 0 (print_dumps test_unavailable w)
            else
              (case get_stock_data e ''AAPL'' 2 1 w of
                 (test_data, w1) \<Rightarrow>
                   (case test_report test_data of
                      Inl ex \<Rightarrow> (1, eprint LTraceback w1)
                    | Inr report \<Rightarrow> exit_with 0 (print_dumps report w1))))
         else exit_with 0 (print_dumps invalid_command_error w)))"

text \<open>One run of the script: the import, then \<open>main\<close> on \<open>sys.argv\<close>.\<close>

definition program :: "env \<Rightarrow> string list \<Rightarrow> int \<times> world" where
  "program e argv = main e argv (module_init e world0)"

subsection \<open>Observing a run\<close>

text \<open>
  The command lines that \<open>main\<close> serves: \<open>search\<close> with a query, or \<open>test\<close>
  (lines 170 and 180).
\<close>

definition well_formed :: "string list \<Rightarrow> bool" where
  "well_formed argv =
     (length argv \<ge> 2 \<and>
      ((argv ! 1 = ''search'' \<and> length argv \<ge> 3) \<or> argv ! 1 = ''test''))"






subsection \<open>Environments to run the script in\<close>

text \<open>A provider that answers every symbol with a price of 150 after a close of 100.\<close>

definition quote_env :: env where
  "quote_env =
     \<lparr>available = True, import_error = [],
      provider = (\<lambda>h s. Reply [''progress'']
         (Inr (VDict [(''regularMarketPrice'', VNum 150),
                      (''regularMarketPreviousClose'', VNum 100)]))),
      clock = (\<lambda>n. ''2024-01-02T10:00:00'')\<rparr>"

text \<open>The library is missing: the import failed.\<close>

definition unavailable_env :: env where
  "unavailable_env =
     \<lparr>available = False, import_error = ''No module named yfinance'',
      provider = (\<lambda>h s. Reply [] (Inr VNone)),
      clock = (\<lambda>n. ''2024-01-02T10:00:00'')\<rparr>"


text \<open>A provider that answers every call with an error of another kind.\<close>

definition broken_env :: env where
  "broken_env =
     \<lparr>available = True, import_error = [],
      provider = (\<lambda>h s. Reply [] (Inl (Exn ProviderError ''connection refused''))),
      clock = (\<lambda>n. ''2024-01-02T10:00:00'')\<rparr>"

text \<open>A provider that knows no price.\<close>

definition empty_env :: env where
  "empty_env =
     \<lparr>available = True, import_error = [],
      provider = (\<lambda>h s. Reply [] (Inr (VDict [(''regularMarketPrice'', VNone)]))),
      clock = (\<lambda>n. ''2024-01-02T10:00:00'')\<rparr>"


text \<open>A provider whose answer holds a value that \<open>json\<close> cannot encode.\<close>

definition object_env :: env where
  "object_env =
     \<lparr>available = True, import_error = [],
      provider = (\<lambda>h s. Reply []
         (Inr (VDict [(''regularMarketPrice'', VNum 150), (''volume'', VObject)]))),
      clock = (\<lambda>n. ''2024-01-02T10:00:00'')\<rparr>"

section \<open>Properties\<close>

subsection \<open>What the functions leave alone\<close>

lemma stdout_eprint [simp]: "stdout (eprint l w) = stdout w"
  by (simp add: eprint_def)

lemma calls_eprint [simp]: "calls (eprint l w) = calls w"
  by (simp add: eprint_def)

lemma slept_eprint [simp]: "slept (eprint l w) = slept w"
  by (simp add: eprint_def)

lemma stderr_eprint [simp]: "stderr (eprint l w) = stderr w @ [l]"
  by (simp add: eprint_def)

lemma stdout_print_stdout [simp]: "stdout (print_stdout v w) = stdout w @ [Json v]"
  by (simp add: print_stdout_def)

lemma stdout_module_init [simp]: "stdout (module_init e w) = stdout w"
  by (simp add: module_init_def)

lemma json_dumps_no_query_error [simp]: "json_dumps no_query_error = Inr no_query_error"
  by (simp add: json_dumps_def no_query_error_def)

lemma json_dumps_invalid_command_error [simp]:
  "json_dumps invalid_command_error = Inr invalid_command_error"
  by (simp add: json_dumps_def invalid_command_error_def)

lemma search_stocks_returns: "\<exists>results. fst (search_stocks e q w) = Inr results"
  by (simp add: search_stocks_def split: prod.splits sum.splits)

subsection \<open>What a fetch returns\<close>

lemma build_stock_data_shape:
  assumes "build_stock_data s info now = Inr v"
  shows "\<exists>d. v = VDict d \<and> map fst d = quote_keys
           \<and> map_of d ''symbol'' = Some (VStr (upper s))
           \<and> map_of d ''price'' = Some (current_price_of info)"
    and "\<exists>x. num_of (current_price_of info) = Some x"
  using assms
  by (auto simp: build_stock_data_def Let_def quote_keys_def py_sub_def
      split: sum.splits option.splits)

lemma fetch_attempt_value:
  assumes "fetch_attempt e s d a w = (Inr v, w')" and "v \<noteq> VNone"
  shows "\<exists>info now. build_stock_data s info now = Inr v
           \<and> truthy (dget info price_key VNone) \<and> \<not> py_eq0 (dget info price_key VNone)"
  using assms
  by (auto simp: fetch_attempt_def Let_def sleep_def
      split: prod.splits sum.splits reply.splits pyval.splits if_splits)

lemma attempts_value:
  assumes "fst (attempts e s mr d as w) = v" and "v \<noteq> VNone"
  shows "\<exists>info now. build_stock_data s info now = Inr v
           \<and> truthy (dget info price_key VNone) \<and> \<not> py_eq0 (dget info price_key VNone)"
  using assms
proof (induction as arbitrary: d w)
  case Nil
  then show ?case by simp
next
  case (Cons a as)
  obtain r w1 where fa: "fetch_attempt e s d a w = (r, w1)"
    by (cases "fetch_attempt e s d a w")
  show ?case
  proof (cases r)
    case (Inr u)
    with fa Cons.prems have "fetch_attempt e s d a w = (Inr v, w1)" by simp
    from fetch_attempt_value [OF this Cons.prems(2)] show ?thesis .
  next
    case (Inl ex)
    with fa Cons.prems Cons.IH show ?thesis
      by (auto simp: Let_def split: if_splits)
  qed
qed

lemma get_stock_data_value:
  assumes "available e" and "fst (get_stock_data e s mr d w) = v" and "v \<noteq> VNone"
  shows "\<exists>info now. build_stock_data s info now = Inr v
           \<and> truthy (dget info price_key VNone) \<and> \<not> py_eq0 (dget info price_key VNone)"
  using assms attempts_value [of e s mr d "py_range (mr + 1)" w v]
  by (simp add: get_stock_data_def)

lemma get_stock_data_none_or_quote:
  assumes "available e"
  shows "fst (get_stock_data e s mr d w) = VNone \<or> is_quote (fst (get_stock_data e s mr d w))"
proof (cases "fst (get_stock_data e s mr d w) = VNone")
  case True
  then show ?thesis by simp
next
  case False
  from get_stock_data_value [OF assms refl False]
  obtain info now where "build_stock_data s info now = Inr (fst (get_stock_data e s mr d w))"
    by blast
  from build_stock_data_shape(1) [OF this] show ?thesis by auto
qed

lemma py_range_3: "py_range 3 = [0, 1, 2]"
  by (simp add: py_range_def upt_rec)

lemmas fetch_eval =
  get_stock_data_def py_range_3 fetch_attempt_def build_stock_data_def
  current_price_of_def previous_close_of_def change_percent_of_def dividend_yield_of_def
  dget_def price_key_def prev_close_key_def py_eq0_def py_sub_def py_gt0_def
  py_truediv_def py_or_def quote_keys_def eprint_def Let_def

lemmas print_eval =
  exit_with_def print_dumps_def json_dumps_def print_stdout_def

lemma search_term_of_upper_aapl: "search_term_of ''AAPL'' = ''AAPL''"
  by code_simp

lemma upper_upper_aapl: "upper ''AAPL'' = ''AAPL''"
  by code_simp

subsection \<open>Claims about the command line\<close>

text \<open>
  C8. A search whose provider answers with a price and, under \<open>volume\<close>, a value that
  \<open>json\<close> cannot encode: the fetch returns a stock data object holding that value, the
  search returns it, and \<open>json.dumps\<close> of line 173 raises outside every \<open>try\<close>. The
  run ends with status 1 and standard output is empty: no JSON object was written.
\<close>

theorem unserialisable_result_prints_nothing:
  "is_quote (fst (get_stock_data object_env ''AAPL'' 2 1 (module_init object_env world0)))
   \<and> stdout (snd (program object_env [''yfinance_api.py'', ''search'', ''AAPL''])) = []
   \<and> fst (program object_env [''yfinance_api.py'', ''search'', ''AAPL'']) = 1"
  by (simp add: program_def main_def object_env_def module_init_def world0_def
      search_stocks_def search_body_def search_term_of_upper_aapl upper_upper_aapl
      search_response_def print_eval fetch_eval)

text \<open>
  C3, as the code has it. A command line that is neither \<open>search\<close> with a query nor
  \<open>test\<close> prints exactly one JSON error object. The exit status is 1 only when no
  argument at all was given; with a first argument, also \<open>search\<close> without its query,
  the status is 0.
\<close>

theorem malformed_command_line:
  "\<not> well_formed argv \<Longrightarrow>
     program e argv =
       (if length argv < 2
        then (1, print_stdout no_query_error (module_init e world0))
        else (0, print_stdout invalid_command_error (module_init e world0)))
     \<and> stdout (snd (program e argv)) =
       [Json (if length argv < 2 then no_query_error else invalid_command_error)]"
  by (auto simp: well_formed_def program_def main_def Let_def world0_def
      exit_with_def print_dumps_def)

theorem malformed_command_line_witness:
  "\<not> well_formed [''yfinance_api.py'']
   \<and> fst (program quote_env [''yfinance_api.py'']) = 1
   \<and> stdout (snd (program quote_env [''yfinance_api.py''])) = [Json no_query_error]
   \<and> \<not> well_formed [''yfinance_api.py'', ''search'']
   \<and> fst (program quote_env [''yfinance_api.py'', ''search'']) = 0
   \<and> stdout (snd (program quote_env [''yfinance_api.py'', ''search'']))
       = [Json invalid_command_error]"
  using malformed_command_line [of "[''yfinance_api.py'']" quote_env]
    malformed_command_line [of "[''yfinance_api.py'', ''search'']" quote_env]
  by (simp add: well_formed_def world0_def)

text \<open>
  C3 as stated fails: \<open>search\<close> without a query is a command line with a missing
  argument, and the script ends with status 0.
\<close>

theorem search_without_query_exits_zero:
  "\<not> well_formed [''yfinance_api.py'', ''search'']
   \<and> \<not> fst (program quote_env [''yfinance_api.py'', ''search'']) \<noteq> 0"
  by (simp add: well_formed_def program_def main_def exit_with_def print_dumps_def)

text \<open>
  C2. With the library available and a provider that answers AAPL with a valid price,
  the fetch of \<open>test\<close> returns a stock data object, and the script prints the failure
  diagnostic: the object has no key \<open>success\<close>, which line 190 asks for.
\<close>

theorem test_reports_failure_on_valid_quote:
  "is_quote (fst (get_stock_data quote_env ''AAPL'' 2 1 (module_init quote_env world0)))
   \<and> stdout (snd (program quote_env [''yfinance_api.py'', ''test'']))
       = [Json (VDict [(''success'', VBool False),
                       (''message'', VStr ''yfinance integration test failed''),
                       (''error'', VStr ''Unknown error'')])]"
  by (simp add: program_def main_def quote_env_def module_init_def world0_def
      get_stock_data_def py_range_3 fetch_attempt_def build_stock_data_def
      current_price_of_def previous_close_of_def change_percent_of_def dividend_yield_of_def
      dget_def price_key_def prev_close_key_def py_eq0_def py_sub_def py_gt0_def
      py_truediv_def py_or_def quote_keys_def test_report_def test_failed_def
      print_eval eprint_def Let_def)

subsection \<open>Claims about one fetch\<close>

lemma fallback_not_quote: "\<not> is_quote fallback_result"
  by (simp add: fallback_result_def quote_keys_def)

lemma is_quote_available:
  "is_quote (fst (get_stock_data e s mr d w)) \<Longrightarrow> available e"
  using fallback_not_quote by (auto simp: get_stock_data_def split: if_splits)

lemma truthy_price_nonzero:
  assumes "truthy (dget info price_key VNone)"
    and "num_of (current_price_of info) = Some x"
  shows "x \<noteq> 0"
proof (cases "map_of info price_key")
  case None
  with assms(1) show ?thesis by (simp add: dget_def)
next
  case (Some p)
  with assms show ?thesis
    by (cases p) (auto simp: dget_def current_price_of_def split: if_splits)
qed

lemma fetch_attempt_no_price:
  assumes "provider e (calls w) s = Reply out (Inr info)"
    and "\<not> truthy info \<or> (\<exists>d. info = VDict d \<and> \<not> truthy (dget d price_key VNone))"
  shows "fst (fetch_attempt e s d 0 w) = Inr VNone"
  using assms by (auto simp: fetch_attempt_def Let_def)

text \<open>
  C1, as the code has it. With the library available, a fetch returns None or a stock
  data object (a dictionary with exactly the keys of a quote), and None when the first
  answer of the provider carries no price. With the library unavailable, it returns the
  dictionary of lines 28 to 32 and touches nothing.
\<close>

theorem get_stock_data_result:
  "(available e \<longrightarrow>
      fst (get_stock_data e symbol max_retries retry_delay w) = VNone
      \<or> is_quote (fst (get_stock_data e symbol max_retries retry_delay w)))
   \<and> (available e \<and> 0 \<le> max_retries
        \<and> provider e (calls w) symbol = Reply out (Inr info)
        \<and> (\<not> truthy info \<or> (\<exists>d. info = VDict d \<and> \<not> truthy (dget d price_key VNone)))
      \<longrightarrow> fst (get_stock_data e symbol max_retries retry_delay w) = VNone)
   \<and> (\<not> available e \<longrightarrow>
      get_stock_data e symbol max_retries retry_delay w = (fallback_result, w))"
proof (intro conjI impI)
  assume "available e"
  then show "fst (get_stock_data e symbol max_retries retry_delay w) = VNone
      \<or> is_quote (fst (get_stock_data e symbol max_retries retry_delay w))"
    by (rule get_stock_data_none_or_quote)
next
  assume a: "available e \<and> 0 \<le> max_retries
        \<and> provider e (calls w) symbol = Reply out (Inr info)
        \<and> (\<not> truthy info \<or> (\<exists>d. info = VDict d \<and> \<not> truthy (dget d price_key VNone)))"
  then have "py_range (max_retries + 1) = 0 # [Suc 0 ..< nat (max_retries + 1)]"
    by (simp add: py_range_def upt_conv_Cons)
  moreover have "fst (fetch_attempt e symbol retry_delay 0 w) = Inr VNone"
    using a fetch_attempt_no_price [of e w symbol out info retry_delay] by blast
  then obtain w1 where "fetch_attempt e symbol retry_delay 0 w = (Inr VNone, w1)"
    by (cases "fetch_attempt e symbol retry_delay 0 w") auto
  ultimately show "fst (get_stock_data e symbol max_retries retry_delay w) = VNone"
    using a by (simp add: get_stock_data_def)
next
  assume "\<not> available e"
  then show "get_stock_data e symbol max_retries retry_delay w = (fallback_result, w)"
    by (simp add: get_stock_data_def)
qed

theorem get_stock_data_result_witness:
  "is_quote (fst (get_stock_data quote_env ''AAPL'' 2 1 world0))
   \<and> fst (get_stock_data empty_env ''AAPL'' 2 1 world0) = VNone
   \<and> get_stock_data unavailable_env ''AAPL'' 2 1 world0 = (fallback_result, world0)"
  using
    get_stock_data_result [where e = quote_env and symbol = "''AAPL''"
      and max_retries = 2 and retry_delay = 1 and w = world0]
    get_stock_data_result [where e = empty_env and symbol = "''AAPL''"
      and max_retries = 2 and retry_delay = 1 and w = world0
      and out = "[]" and info = "VDict [(''regularMarketPrice'', VNone)]"]
    get_stock_data_result [where e = unavailable_env and symbol = "''AAPL''"
      and max_retries = 2 and retry_delay = 1 and w = world0]
  by (simp add: quote_env_def empty_env_def unavailable_env_def world0_def fetch_eval)

text \<open>
  C1 as stated fails: with the library unavailable the result of a fetch is neither None
  nor a stock data object, and it is truthy.
\<close>

theorem unavailable_fetch_is_truthy:
  "fst (get_stock_data unavailable_env ''AAPL'' 2 1 world0) \<noteq> VNone
   \<and> \<not> is_quote (fst (get_stock_data unavailable_env ''AAPL'' 2 1 world0))
   \<and> truthy (fst (get_stock_data unavailable_env ''AAPL'' 2 1 world0))"
  by (simp add: get_stock_data_def unavailable_env_def fallback_result_def quote_keys_def)

text \<open>
  C9. Whenever a fetch returns a stock data object, its \<open>symbol\<close> entry is the symbol
  asked for in upper case, and its \<open>price\<close> entry is a number other than zero.
\<close>

theorem quote_symbol_and_price:
  "is_quote (fst (get_stock_data e symbol max_retries retry_delay w)) \<Longrightarrow>
     py_subscript (fst (get_stock_data e symbol max_retries retry_delay w)) ''symbol''
       = Inr (VStr (upper symbol))
     \<and> (\<exists>p x. py_subscript (fst (get_stock_data e symbol max_retries retry_delay w)) ''price''
                 = Inr p \<and> num_of p = Some x \<and> x \<noteq> 0)"
proof -
  let ?v = "fst (get_stock_data e symbol max_retries retry_delay w)"
  assume q: "is_quote ?v"
  then have av: "available e" by (rule is_quote_available)
  from q have nn: "?v \<noteq> VNone" by auto
  from get_stock_data_value [OF av refl nn]
  obtain info now where b: "build_stock_data symbol info now = Inr ?v"
    and t: "truthy (dget info price_key VNone)"
    by blast
  from build_stock_data_shape(1) [OF b]
  obtain dct where v: "?v = VDict dct"
    and sy: "map_of dct ''symbol'' = Some (VStr (upper symbol))"
    and pr: "map_of dct ''price'' = Some (current_price_of info)"
    by blast
  from build_stock_data_shape(2) [OF b]
  obtain x where x: "num_of (current_price_of info) = Some x" by blast
  have "x \<noteq> 0" using t x by (rule truthy_price_nonzero)
  then show ?thesis
    using v sy pr x by simp
qed

lemma upper_aapl: "upper ''aapl'' = ''AAPL''"
  by code_simp

theorem quote_symbol_and_price_witness:
  "is_quote (fst (get_stock_data quote_env ''aapl'' 2 1 world0))
   \<and> py_subscript (fst (get_stock_data quote_env ''aapl'' 2 1 world0)) ''symbol''
       = Inr (VStr ''AAPL'')
   \<and> py_subscript (fst (get_stock_data quote_env ''aapl'' 2 1 world0)) ''price''
       = Inr (VNum 150)"
  using quote_symbol_and_price [of quote_env "''aapl''" 2 1 world0]
  by (simp add: quote_env_def world0_def fetch_eval upper_aapl)

lemma change_percent_of_no_zero_division:
  "change_percent_of change previous_close \<noteq> Inl (Exn ZeroDivisionError m)"
proof (cases "num_of previous_close")
  case None
  then show ?thesis
    by (simp add: change_percent_of_def py_gt0_def)
next
  case (Some pc)
  then show ?thesis
    by (cases "num_of change")
      (auto simp: change_percent_of_def py_gt0_def py_truediv_def split: sum.splits)
qed

lemma change_percent_of_not_positive:
  "num_of previous_close = Some pc \<Longrightarrow> pc \<le> 0 \<Longrightarrow>
     change_percent_of change previous_close = Inr (VNum 0)"
  by (simp add: change_percent_of_def py_gt0_def)

lemma build_stock_data_change_percent:
  assumes "build_stock_data s info now = Inr v"
  shows "\<exists>change. py_sub (current_price_of info) (previous_close_of info) = Inr change
           \<and> py_subscript v ''change'' = Inr change
           \<and> change_percent_of change (previous_close_of info)
               = py_subscript v ''changePercent''"
proof -
  obtain change where c: "py_sub (current_price_of info) (previous_close_of info) = Inr change"
    using assms by (cases "py_sub (current_price_of info) (previous_close_of info)")
      (auto simp: build_stock_data_def Let_def)
  obtain cp where p: "change_percent_of change (previous_close_of info) = Inr cp"
    using assms c by (cases "change_percent_of change (previous_close_of info)")
      (auto simp: build_stock_data_def Let_def)
  show ?thesis
    using assms c p
    by (auto simp: build_stock_data_def Let_def split: sum.splits)
qed

text \<open>
  C10. The expression of line 61 never raises a ZeroDivisionError, whatever the values of
  \<open>change\<close> and \<open>previous_close\<close>. The previous close is the current price when
  \<open>info\<close> has no previous close; when the previous close is a number that is not
  strictly positive, the change percent is 0. Every stock data object that a fetch
  returns was built from some \<open>info\<close> this way: its \<open>changePercent\<close> entry is the value
  of that expression on its \<open>change\<close> entry and the previous close.
\<close>

theorem change_percent_never_divides_by_zero:
  "(\<forall>m. change_percent_of change previous_close \<noteq> Inl (Exn ZeroDivisionError m))
   \<and> (map_of info prev_close_key = None \<longrightarrow> previous_close_of info = current_price_of info)
   \<and> (num_of previous_close = Some pc \<and> pc \<le> 0 \<longrightarrow>
        change_percent_of change previous_close = Inr (VNum 0))
   \<and> (is_quote (fst (get_stock_data e symbol max_retries retry_delay w)) \<longrightarrow>
        (\<exists>info1 now chg pct.
           build_stock_data symbol info1 now
             = Inr (fst (get_stock_data e symbol max_retries retry_delay w))
           \<and> py_subscript (fst (get_stock_data e symbol max_retries retry_delay w)) ''change''
               = Inr chg
           \<and> py_subscript (fst (get_stock_data e symbol max_retries retry_delay w))
               ''changePercent'' = Inr pct
           \<and> change_percent_of chg (previous_close_of info1) = Inr pct))"
proof (intro conjI impI allI)
  fix m
  show "change_percent_of change previous_close \<noteq> Inl (Exn ZeroDivisionError m)"
    by (rule change_percent_of_no_zero_division)
next
  assume "map_of info prev_close_key = None"
  then show "previous_close_of info = current_price_of info"
    by (simp add: previous_close_of_def dget_def)
next
  assume "num_of previous_close = Some pc \<and> pc \<le> 0"
  then show "change_percent_of change previous_close = Inr (VNum 0)"
    using change_percent_of_not_positive by blast
next
  let ?v = "fst (get_stock_data e symbol max_retries retry_delay w)"
  assume q: "is_quote ?v"
  then have av: "available e" by (rule is_quote_available)
  from q have nn: "?v \<noteq> VNone" by auto
  from get_stock_data_value [OF av refl nn]
  obtain info1 now where b: "build_stock_data symbol info1 now = Inr ?v"
    by blast
  from build_stock_data_change_percent [OF b]
  obtain chg where c: "py_subscript ?v ''change'' = Inr chg"
    and p: "change_percent_of chg (previous_close_of info1)
              = py_subscript ?v ''changePercent''"
    by blast
  from build_stock_data_shape(1) [OF b] obtain dct where v: "?v = VDict dct"
    and ks: "map fst dct = quote_keys"
    by blast
  have "''changePercent'' \<in> fst ` set dct"
    using ks by (simp add: quote_keys_def flip: set_map)
  then obtain pct where "map_of dct ''changePercent'' = Some pct"
    by (metis map_of_eq_None_iff not_Some_eq)
  then have "py_subscript ?v ''changePercent'' = Inr pct"
    using v by simp
  with b c p show "\<exists>info1 now chg pct.
           build_stock_data symbol info1 now = Inr ?v
           \<and> py_subscript ?v ''change'' = Inr chg
           \<and> py_subscript ?v ''changePercent'' = Inr pct
           \<and> change_percent_of chg (previous_close_of info1) = Inr pct"
    by auto
qed

theorem change_percent_never_divides_by_zero_witness:
  "map_of [(''regularMarketPrice'', VNum 5)] prev_close_key = None
   \<and> previous_close_of [(''regularMarketPrice'', VNum 5)] = VNum 5
   \<and> num_of (VNum 0) = Some 0
   \<and> change_percent_of (VNum 5) (VNum 0) = Inr (VNum 0)
   \<and> change_percent_of (VNum 5) (VNum (- 2)) = Inr (VNum 0)
   \<and> is_quote (fst (get_stock_data quote_env ''AAPL'' 2 1 world0))
   \<and> py_subscript (fst (get_stock_data quote_env ''AAPL'' 2 1 world0)) ''changePercent''
       = Inr (VNum 50)"
  using
    change_percent_never_divides_by_zero [where change = "VNum 5"
      and previous_close = "VNum 0" and pc = 0
      and info = "[(''regularMarketPrice'', VNum 5)]" and e = quote_env
      and symbol = "''AAPL''" and max_retries = 2 and retry_delay = 1 and w = world0]
    change_percent_never_divides_by_zero [where change = "VNum 5"
      and previous_close = "VNum (- 2)" and pc = "- 2"
      and info = "[(''regularMarketPrice'', VNum 5)]" and e = quote_env
      and symbol = "''AAPL''" and max_retries = 2 and retry_delay = 1 and w = world0]
  by (simp add: quote_env_def world0_def fetch_eval)

subsection \<open>Claims about a search\<close>

lemma is_space_upper_char: "is_space c \<Longrightarrow> upper_char c = c"
  by (auto simp: is_space_def upper_char_def Let_def)

lemma search_term_of_blank:
  assumes "\<forall>c \<in> set q. is_space c"
  shows "search_term_of q = []"
proof -
  have u: "upper q = q"
    using assms by (simp add: upper_def is_space_upper_char map_idI)
  have d: "dropWhile is_space q = []"
    using assms by simp
  show ?thesis
    unfolding search_term_of_def strip_def u d by simp
qed

text \<open>
  C6. A query that is empty or made of white space only gives the empty list, and
  nothing happens: the world after the search is the world before it, so no fetch was
  attempted and nothing was logged.
\<close>

theorem blank_query_returns_empty:
  "\<forall>c \<in> set query. is_space c \<Longrightarrow> search_stocks e query w = (Inr [], w)"
  using search_term_of_blank [of query]
  by (simp add: search_stocks_def search_body_def)

theorem blank_query_returns_empty_witness:
  "search_stocks quote_env [] world0 = (Inr [], world0)
   \<and> search_stocks quote_env [CHR '' '', CHR 0x09, CHR '' ''] world0 = (Inr [], world0)"
  using blank_query_returns_empty [of "[]" quote_env world0]
    blank_query_returns_empty [of "[CHR '' '', CHR 0x09, CHR '' '']" quote_env world0]
  by (simp add: is_space_def)

subsection \<open>Claims about retries\<close>






lemma attempts_other_error:
  assumes "fst (fetch_attempt e s d a w) = Inl ex" and "\<not> is_rate_limit (exn_str ex)"
  shows "attempts e s mr d (a # rest) w
           = (VNone, eprint LTraceback (eprint (LError s (exn_str ex))
                (snd (fetch_attempt e s d a w))))"
proof -
  obtain w1 where "fetch_attempt e s d a w = (Inl ex, w1)"
    using assms(1) by (cases "fetch_attempt e s d a w") auto
  then show ?thesis
    using assms(2) by (simp add: Let_def)
qed

lemma fetch_attempt_first_error:
  assumes "provider e (calls w) s = Reply out (Inl ex)"
  shows "fetch_attempt e s d 0 w
           = (Inl ex, eprint (LFetching s 1) w\<lparr>calls := calls w @ [s]\<rparr>)"
  using assms by (simp add: fetch_attempt_def Let_def)

text \<open>
  C5. In the loop of a fetch, an attempt that ends in an exception whose message has no
  rate limiting indicator ends the fetch: the result is None, and the world is the one
  that attempt left plus the two lines of its report, whatever attempts were still to
  run. So a fetch whose first provider call fails this way returns None after that one
  call and without sleeping. And a search never ends in an exception: it returns a list.
\<close>

theorem other_errors_are_not_retried:
  "(fst (fetch_attempt e symbol retry_delay attempt w) = Inl ex
      \<and> \<not> is_rate_limit (exn_str ex) \<longrightarrow>
      attempts e symbol max_retries retry_delay (attempt # rest) w
        = (VNone, eprint LTraceback (eprint (LError symbol (exn_str ex))
             (snd (fetch_attempt e symbol retry_delay attempt w)))))
   \<and> (available e \<and> 0 \<le> max_retries
        \<and> provider e (calls w) symbol = Reply out (Inl ex)
        \<and> \<not> is_rate_limit (exn_str ex) \<longrightarrow>
      fst (get_stock_data e symbol max_retries retry_delay w) = VNone
      \<and> calls (snd (get_stock_data e symbol max_retries retry_delay w)) = calls w @ [symbol]
      \<and> slept (snd (get_stock_data e symbol max_retries retry_delay w)) = slept w)
   \<and> (\<exists>results. fst (search_stocks e query w) = Inr results)"
proof (intro conjI impI)
  assume "fst (fetch_attempt e symbol retry_delay attempt w) = Inl ex
      \<and> \<not> is_rate_limit (exn_str ex)"
  then show "attempts e symbol max_retries retry_delay (attempt # rest) w
        = (VNone, eprint LTraceback (eprint (LError symbol (exn_str ex))
             (snd (fetch_attempt e symbol retry_delay attempt w))))"
    using attempts_other_error by blast
next
  assume a: "available e \<and> 0 \<le> max_retries
        \<and> provider e (calls w) symbol = Reply out (Inl ex)
        \<and> \<not> is_rate_limit (exn_str ex)"
  then have up: "py_range (max_retries + 1) = 0 # [Suc 0 ..< nat (max_retries + 1)]"
    by (simp add: py_range_def upt_conv_Cons)
  have fa: "fetch_attempt e symbol retry_delay 0 w
              = (Inl ex, eprint (LFetching symbol 1) w\<lparr>calls := calls w @ [symbol]\<rparr>)"
    using a fetch_attempt_first_error by blast
  have g: "get_stock_data e symbol max_retries retry_delay w
             = (VNone, eprint LTraceback (eprint (LError symbol (exn_str ex))
                  (eprint (LFetching symbol 1) w\<lparr>calls := calls w @ [symbol]\<rparr>)))"
    using a up fa attempts_other_error [of e symbol retry_delay 0 w ex max_retries]
    by (simp add: get_stock_data_def)
  show "fst (get_stock_data e symbol max_retries retry_delay w) = VNone"
    unfolding g by simp
  show "calls (snd (get_stock_data e symbol max_retries retry_delay w)) = calls w @ [symbol]"
    unfolding g by simp
  show "slept (snd (get_stock_data e symbol max_retries retry_delay w)) = slept w"
    unfolding g by simp
next
  show "\<exists>results. fst (search_stocks e query w) = Inr results"
    by (rule search_stocks_returns)
qed

lemma not_rate_limit_refused: "\<not> is_rate_limit ''connection refused''"
  by (simp add: is_rate_limit_def)

theorem other_errors_are_not_retried_witness:
  "fst (fetch_attempt broken_env ''AAPL'' 1 0 world0)
     = Inl (Exn ProviderError ''connection refused'')
   \<and> \<not> is_rate_limit (exn_str (Exn ProviderError ''connection refused''))
   \<and> fst (attempts broken_env ''AAPL'' 2 1 [0, 1, 2] world0) = VNone
   \<and> calls (snd (attempts broken_env ''AAPL'' 2 1 [0, 1, 2] world0)) = [''AAPL'']
   \<and> fst (get_stock_data broken_env ''AAPL'' 2 1 world0) = VNone
   \<and> calls (snd (get_stock_data broken_env ''AAPL'' 2 1 world0)) = [''AAPL'']
   \<and> slept (snd (get_stock_data broken_env ''AAPL'' 2 1 world0)) = []"
  using other_errors_are_not_retried [where e = broken_env and symbol = "''AAPL''"
      and max_retries = 2 and retry_delay = 1 and attempt = 0 and rest = "[1, 2]"
      and w = world0 and out = "[]" and ex = "Exn ProviderError ''connection refused''"]
    not_rate_limit_refused
  by (simp add: broken_env_def world0_def fetch_attempt_def eprint_def Let_def)

subsection \<open>The fetches recorded in the error stream\<close>


























end
